theory Spec2Isabelle
  imports Main "HOL-Library.Sublist" "HOL-Library.AList"
begin

section \<open>Python strings\<close>

text \<open>
  Strings are character lists. \<open>s.startswith(p)\<close> is \<^term>\<open>prefix p s\<close>,
  \<open>sep.join(xs)\<close> is \<open>str_join sep xs\<close>, \<open>s.split(c)\<close> for a one-character
  separator is \<open>str_split c s\<close>, and \<open>str(n)\<close> for a natural number is
  \<open>string_of_nat n\<close>.
\<close>

definition NL :: string where
  "NL = [CHR 0x0A]"

fun str_join :: "string \<Rightarrow> string list \<Rightarrow> string" where
  "str_join sep [] = []"
| "str_join sep [x] = x"
| "str_join sep (x # y # ys) = x @ sep @ str_join sep (y # ys)"

fun str_split :: "char \<Rightarrow> string \<Rightarrow> string list" where
  "str_split c [] = [[]]"
| "str_split c (x # xs) =
     (if x = c then [] # str_split c xs
      else (case str_split c xs of [] \<Rightarrow> [[x]] | w # ws \<Rightarrow> (x # w) # ws))"

definition str_replace_char :: "char \<Rightarrow> char \<Rightarrow> string \<Rightarrow> string" where
  "str_replace_char a b s = map (\<lambda>c. if c = a then b else c) s"

definition digit_char :: "nat \<Rightarrow> char" where
  "digit_char d = ''0123456789'' ! d"

fun string_of_nat :: "nat \<Rightarrow> string" where
  "string_of_nat n =
     (if n < 10 then [digit_char n] else string_of_nat (n div 10) @ [digit_char (n mod 10)])"

declare string_of_nat.simps [simp del]

section \<open>Data model (registry.py, utils.py)\<close>

text \<open>
  An \<open>inspect.Signature\<close> is used through two observations only: the ordered names of
  its parameters and its rendering \<open>str(signature)\<close>.
\<close>

record signature =
  parameters :: "string list"
  sig_str :: string

text \<open>
  The decorated function object. The code reads \<open>func.__module__\<close>,
  \<open>func.__name__\<close> and \<open>inspect.signature(func)\<close> from it.
\<close>

record pyfunc =
  f_module :: string
  f_name :: string
  f_signature :: signature

text \<open>The dataclass \<open>FunctionMetadata\<close>.\<close>

record FunctionMetadata =
  func :: pyfunc
  name :: string
  module :: string
  source :: string
  docstring :: string
  signature :: signature
  frozen :: bool
  implementation :: "string option"

definition get_full_name :: "FunctionMetadata \<Rightarrow> string" where
  "get_full_name md = module md @ ''.'' @ name md"

text \<open>
  \<open>hashlib.md5(...).hexdigest()\<close> is a library function and enters as the parameter
  \<open>md5_hex\<close>. Both hash functions of the source build the same input string.
\<close>

definition hash_input :: "string \<Rightarrow> signature \<Rightarrow> string" where
  "hash_input doc sg = doc @ ''|'' @ sig_str sg"

definition get_hash :: "(string \<Rightarrow> string) \<Rightarrow> FunctionMetadata \<Rightarrow> string" where
  "get_hash md5_hex md = md5_hex (hash_input (docstring md) (signature md))"

definition get_function_hash :: "(string \<Rightarrow> string) \<Rightarrow> string \<Rightarrow> signature \<Rightarrow> string" where
  "get_function_hash md5_hex doc sg = md5_hex (hash_input doc sg)"

text \<open>
  A cache record is a Python dictionary from strings to strings (keys \<open>hash\<close> and
  \<open>implementation\<close>), kept as an association list; the empty dictionary is falsy.
  A persisted partition is either unreadable (the \<open>open\<close> or \<open>json.load\<close> raises)
  or the dictionary that \<open>json.load\<close> returns, in key order.
\<close>

type_synonym cache_record = "(string \<times> string) list"

datatype cache_file = Unreadable | Json "(string \<times> cache_record) list"

text \<open>One request to \<open>CodeGenerator.generate_implementation\<close>.\<close>

record request =
  req_name :: string
  req_docstring :: string
  req_signature :: signature
  req_test_code :: string
  error_feedback :: "string option"

text \<open>
  The process-wide state: the class attributes of \<open>FunctionRegistry\<close>
  (\<open>_registry\<close>, \<open>_implementations\<close>, \<open>_needs_generation\<close>) and of \<open>Cache\<close>
  (\<open>_cache\<close>, \<open>_loaded_modules\<close>), the cache directory (file name to content; the
  files of \<open>read_only\<close> cannot be opened for writing), and the list of requests made to
  the code generator so far. \<open>_registry\<close> and \<open>_cache\<close> are iterated by the code, so
  they keep insertion order.
\<close>

record world =
  registry :: "(string \<times> FunctionMetadata) list"
  implementations :: "string \<rightharpoonup> string"
  needs_generation_flags :: "string \<rightharpoonup> bool"
  cache :: "(string \<times> cache_record) list"
  loaded_modules :: "string set"
  files :: "string \<rightharpoonup> cache_file"
  read_only :: "string set"
  oracle_calls :: "request list"

definition init_world :: world where
  "init_world = \<lparr>registry = [], implementations = Map.empty,
     needs_generation_flags = Map.empty, cache = [], loaded_modules = {},
     files = Map.empty, read_only = {}, oracle_calls = []\<rparr>"

section \<open>FunctionRegistry (registry.py)\<close>

definition register ::
  "pyfunc \<Rightarrow> string \<Rightarrow> string \<Rightarrow> string \<Rightarrow> string \<Rightarrow> signature \<Rightarrow> bool \<Rightarrow> world \<Rightarrow> world" where
  "register f nm modname src doc sg frz w =
     w\<lparr>registry := AList.update (modname @ ''.'' @ nm)
          \<lparr>func = f, name = nm, module = modname, source = src, docstring = doc,
           signature = sg, frozen = frz, implementation = None\<rparr> (registry w)\<rparr>"

definition get_all :: "world \<Rightarrow> FunctionMetadata list" where
  "get_all w = map snd (registry w)"

definition get :: "string \<Rightarrow> world \<Rightarrow> FunctionMetadata option" where
  "get full_name w = map_of (registry w) full_name"

definition store_implementation :: "string \<Rightarrow> string \<Rightarrow> world \<Rightarrow> world" where
  "store_implementation full_name impl w =
     w\<lparr>registry := AList.map_entry full_name (\<lambda>md. md\<lparr>implementation := Some impl\<rparr>) (registry w),
       implementations := (implementations w)(full_name \<mapsto> impl)\<rparr>"

definition get_implementation :: "string \<Rightarrow> world \<Rightarrow> string option" where
  "get_implementation full_name w =
     (case implementations w full_name of
        Some impl \<Rightarrow> Some impl
      | None \<Rightarrow>
          (case map_of (registry w) full_name of
             Some md \<Rightarrow>
               (case implementation md of
                  Some impl \<Rightarrow> if impl \<noteq> [] then Some impl else None
                | None \<Rightarrow> None)
           | None \<Rightarrow> None))"

definition set_flag :: "string \<Rightarrow> bool \<Rightarrow> world \<Rightarrow> world" where
  "set_flag full_name b w =
     w\<lparr>needs_generation_flags := (needs_generation_flags w)(full_name \<mapsto> b)\<rparr>"

definition needs_generation ::
  "(string \<Rightarrow> string) \<Rightarrow> string \<Rightarrow> string option \<Rightarrow> world \<Rightarrow> bool \<times> world" where
  "needs_generation md5_hex full_name cached_hash w =
     (case needs_generation_flags w full_name of
        Some flag \<Rightarrow> (flag, w)
      | None \<Rightarrow>
          (case map_of (registry w) full_name of
             None \<Rightarrow> (False, set_flag full_name False w)
           | Some metadata \<Rightarrow>
               if frozen metadata then (False, set_flag full_name False w)
               else (case cached_hash of
                       None \<Rightarrow> (True, set_flag full_name True w)
                     | Some h \<Rightarrow>
                         (let result = (get_hash md5_hex metadata \<noteq> h)
                          in (result, set_flag full_name result w)))))"

definition clear_module :: "string \<Rightarrow> world \<Rightarrow> world" where
  "clear_module module_name w =
     w\<lparr>registry := filter (\<lambda>(full_name, metadata). \<not> prefix module_name (module metadata))
                      (registry w),
       implementations := (\<lambda>full_name. if prefix module_name full_name then None
                                         else implementations w full_name),
       needs_generation_flags := (\<lambda>full_name. if prefix module_name full_name then None
                                                else needs_generation_flags w full_name)\<rparr>"

section \<open>Cache (utils.py)\<close>

definition module_name_to_cache_file :: "string \<Rightarrow> string" where
  "module_name_to_cache_file module_name =
     str_replace_char (CHR ''.'') (CHR ''_'') module_name @ ''.json''"

text \<open>The dictionary truth value used by \<open>if cache_entry\<close>.\<close>

definition truthy_record :: "cache_record option \<Rightarrow> bool" where
  "truthy_record e = (case e of None \<Rightarrow> False | Some d \<Rightarrow> d \<noteq> [])"

text \<open>The string truth value used by \<open>if not implementation\<close>.\<close>

definition truthy_str :: "string option \<Rightarrow> bool" where
  "truthy_str s = (case s of None \<Rightarrow> False | Some t \<Rightarrow> t \<noteq> [])"

definition load_entry :: "string \<times> cache_record \<Rightarrow> world \<Rightarrow> world" where
  "load_entry p w =
     (case map_of (snd p) ''implementation'' of
        Some impl \<Rightarrow> store_implementation (fst p) impl w
      | None \<Rightarrow> w)"

definition merge_cache :: "(string \<times> cache_record) list \<Rightarrow> world \<Rightarrow> world" where
  "merge_cache module_cache w =
     w\<lparr>cache := fold (\<lambda>p c. AList.update (fst p) (snd p) c) module_cache (cache w)\<rparr>"

definition load :: "string \<Rightarrow> world \<Rightarrow> world" where
  "load module_name w =
     (if module_name \<in> loaded_modules w then w
      else
        (let w1 = (case files w (module_name_to_cache_file module_name) of
                     Some (Json module_cache) \<Rightarrow>
                       fold load_entry module_cache (merge_cache module_cache w)
                   | Some Unreadable \<Rightarrow> w
                   | None \<Rightarrow> w)
         in w1\<lparr>loaded_modules := insert module_name (loaded_modules w1)\<rparr>))"

definition save :: "string \<Rightarrow> world \<Rightarrow> world" where
  "save module_name w =
     (let cache_file = module_name_to_cache_file module_name;
          module_cache = filter (\<lambda>(func_name, d). prefix (module_name @ ''.'') func_name) (cache w)
      in if cache_file \<in> read_only w then w
         else w\<lparr>files := (files w)(cache_file \<mapsto> Json module_cache)\<rparr>)"

definition cache_get :: "string \<Rightarrow> world \<Rightarrow> cache_record option" where
  "cache_get func_name w = map_of (cache w) func_name"

definition store :: "string \<Rightarrow> string \<Rightarrow> string \<Rightarrow> world \<Rightarrow> world" where
  "store func_name func_hash impl w =
     w\<lparr>cache := AList.update func_name [(''hash'', func_hash), (''implementation'', impl)]
                  (cache w)\<rparr>"

section \<open>The decorator's registration (decorator.py)\<close>

text \<open>
  What \<open>parablock\<close> reads from a decorated function before it registers it:
  the function object, the name of its module (\<open>inspect.getmodule(func).__name__\<close>),
  its source, its cleaned docstring and the \<open>frozen\<close> argument.
\<close>

record decl =
  d_func :: pyfunc
  d_module_name :: string
  d_source :: string
  d_docstring :: string
  d_frozen :: bool

definition decorator :: "decl \<Rightarrow> world \<Rightarrow> world" where
  "decorator d w =
     register (d_func d) (f_name (d_func d)) (d_module_name d) (d_source d) (d_docstring d)
       (f_signature (d_func d)) (d_frozen d) w"

section \<open>The collaborators outside the repository\<close>

text \<open>
  Running Python text is not part of the model. \<open>py_exec src\<close> is the outcome of
  \<open>exec(src, {})\<close> followed by the call of the \<open>run_test\<close> it defines: it completes,
  or it raises an \<open>Exception\<close> described by a text. An exception outside the
  \<open>Exception\<close> hierarchy (\<open>SystemExit\<close>, \<open>KeyboardInterrupt\<close>) is caught nowhere
  in the code and ends the process; it is not an outcome here.
\<close>

datatype py_outcome = Completed | Raised string

text \<open>
  The environment of a \<open>Processor\<close>: the digest; the code generator, that is
  \<open>CodeGenerator.generate_implementation\<close>, which asks the external service and returns
  a success flag and an implementation text (its answer may depend on the requests made
  before); the extraction of the assertion block from a function's source, done by the
  \<open>ast\<close> library in \<open>TestRunner.extract_test_code\<close>; \<open>textwrap.dedent\<close>;
  \<open>textwrap.indent\<close>; and the Python interpreter. All of them are total here, so the
  \<open>except Exception\<close> branch of \<open>process_module\<close>, which returns false, is not
  reached.
\<close>

record env =
  md5_hexdigest :: "string \<Rightarrow> string"
  generate_implementation :: "request list \<Rightarrow> request \<Rightarrow> bool \<times> string"
  extract_test_code :: "string \<Rightarrow> string"
  textwrap_dedent :: "string \<Rightarrow> string"
  textwrap_indent :: "string \<Rightarrow> string \<Rightarrow> string"
  py_exec :: "string \<Rightarrow> py_outcome"

section \<open>TestRunner (test\_runner.py)\<close>

text \<open>The parameter names without the self-reference parameter \<open>fn\<close>.\<close>

definition param_names :: "pyfunc \<Rightarrow> string list" where
  "param_names f = filter (\<lambda>p. p \<noteq> ''fn'') (parameters (f_signature f))"

text \<open>The template of \<open>run_test\<close> with both texts filled in, line by line.\<close>

definition template :: "string \<Rightarrow> string \<Rightarrow> string \<Rightarrow> string \<Rightarrow> string" where
  "template params_str fn_params_str implementation_indented test_code_indented =
     NL
     @ ''def test_implementation(fn, '' @ params_str @ ''):'' @ NL
     @ ''    def implementation_func('' @ params_str @ ''):'' @ NL
     @ implementation_indented @ NL
     @ ''        '' @ NL
     @ ''    return implementation_func('' @ params_str @ '')'' @ NL
     @ NL
     @ ''def run_test():'' @ NL
     @ ''    # Define a mock fn function that calls the implementation'' @ NL
     @ ''    def fn('' @ params_str @ ''):'' @ NL
     @ ''        return test_implementation('' @ fn_params_str @ '')'' @ NL
     @ ''    '' @ NL
     @ ''    # Run the test code'' @ NL
     @ test_code_indented @ NL
     @ ''    '' @ NL
     @ ''    return True  # If we got here, tests passed'' @ NL"

text \<open>
  \<open>traceback.format_exc()\<close> inside an \<open>except\<close> block: the header line followed
  by the frames and the description of the exception.
\<close>

definition format_exc :: "string \<Rightarrow> string" where
  "format_exc e = ''Traceback (most recent call last):'' @ NL @ e"

text \<open>The text \<open>test_func_source\<close> that \<open>run_test\<close> builds and executes.\<close>

definition test_func_source :: "env \<Rightarrow> pyfunc \<Rightarrow> string \<Rightarrow> string \<Rightarrow> string" where
  "test_func_source ev f impl tc =
     (let impl1 = textwrap_dedent ev impl;
          tc1 = textwrap_dedent ev tc;
          params_str = str_join '', '' (param_names f);
          fn_params_str = str_join '', '' (''None'' # param_names f);
          implementation_indented = textwrap_indent ev impl1 ''        '';
          test_code_indented = textwrap_indent ev tc1 ''    ''
      in template params_str fn_params_str implementation_indented test_code_indented)"

definition run_test :: "env \<Rightarrow> pyfunc \<Rightarrow> string \<Rightarrow> string \<Rightarrow> bool \<times> string option" where
  "run_test ev f impl tc =
     (case py_exec ev (test_func_source ev f impl tc) of
        Completed \<Rightarrow> (True, None)
      | Raised e \<Rightarrow> (False, Some (format_exc e)))"

section \<open>Processor (processor.py)\<close>

text \<open>
  The loop \<open>for attempt in range(max_attempts)\<close> of \<open>_generate_and_test\<close>, by
  recursion on the attempt numbers still to run. The request carries the current
  \<open>error_feedback\<close>; every call of the code generator is appended to \<open>oracle_calls\<close>.
\<close>

definition generation_failed_message :: "nat \<Rightarrow> string" where
  "generation_failed_message attempt =
     ''Failed to generate implementation after '' @ string_of_nat (attempt + 1) @ '' attempts''"

fun attempt_loop ::
  "env \<Rightarrow> pyfunc \<Rightarrow> request \<Rightarrow> nat list \<Rightarrow> world \<Rightarrow> (bool \<times> string option) \<times> world" where
  "attempt_loop ev f req [] w = ((False, error_feedback req), w)"
| "attempt_loop ev f req (attempt # rest) w =
     (let answer = generate_implementation ev (oracle_calls w) req;
          w1 = w\<lparr>oracle_calls := oracle_calls w @ [req]\<rparr>
      in if \<not> fst answer then
           ((False, Some (generation_failed_message attempt)), w1)
         else
           (let tested = run_test ev f (snd answer) (req_test_code req)
            in if fst tested then
                 ((True, None),
                  store_implementation (f_module f @ ''.'' @ req_name req) (snd answer) w1)
               else attempt_loop ev f (req\<lparr>error_feedback := snd tested\<rparr>) rest w1))"

definition max_attempts :: nat where
  "max_attempts = 3"

definition generate_and_test ::
  "env \<Rightarrow> pyfunc \<Rightarrow> string \<Rightarrow> string \<Rightarrow> signature \<Rightarrow> string \<Rightarrow> world
     \<Rightarrow> (bool \<times> string option) \<times> world" where
  "generate_and_test ev f nm doc sg tc w =
     attempt_loop ev f
       \<lparr>req_name = nm, req_docstring = doc, req_signature = sg, req_test_code = tc,
        error_feedback = None\<rparr>
       [0..<max_attempts] w"

text \<open>The value of \<open>cache_entry.get("hash") if cache_entry else None\<close>.\<close>

definition cached_hash_of :: "string \<Rightarrow> world \<Rightarrow> string option" where
  "cached_hash_of full_name w =
     (if truthy_record (cache_get full_name w) then map_of (the (cache_get full_name w)) ''hash''
      else None)"

text \<open>The value of \<open>cache_entry.get("implementation", "")\<close>.\<close>

definition cached_implementation_of :: "string \<Rightarrow> world \<Rightarrow> string" where
  "cached_implementation_of full_name w =
     (case map_of (the (cache_get full_name w)) ''implementation'' of
        Some impl \<Rightarrow> impl | None \<Rightarrow> [])"

text \<open>
  The body of the loop over the functions of \<open>process_module\<close>: the pair is the
  \<open>success\<close> flag so far and the state.
\<close>

definition process_function :: "env \<Rightarrow> FunctionMetadata \<Rightarrow> bool \<times> world \<Rightarrow> bool \<times> world" where
  "process_function ev func_metadata sw =
     (let success = fst sw; w = snd sw;
          full_name = get_full_name func_metadata;
          func_hash = get_function_hash (md5_hexdigest ev) (docstring func_metadata)
                        (signature func_metadata);
          cache_entry = cache_get full_name w;
          cached_hash = cached_hash_of full_name w;
          ng = needs_generation (md5_hexdigest ev) full_name cached_hash w
      in if \<not> fst ng then
           (if truthy_record cache_entry then
              (success,
               store_implementation full_name (cached_implementation_of full_name w) (snd ng))
            else (False, snd ng))
         else
           (let test_code = extract_test_code ev (source func_metadata);
                gt = generate_and_test ev (func func_metadata) (name func_metadata)
                       (docstring func_metadata) (signature func_metadata) test_code (snd ng)
            in if fst (fst gt) then
                 (if truthy_str (get_implementation full_name (snd gt)) then
                    (success,
                     store full_name func_hash (the (get_implementation full_name (snd gt)))
                       (snd gt))
                  else (success, snd gt))
               else (False, snd gt)))"

text \<open>
  \<open>process_module\<close> after its \<open>importlib.import_module\<close> call, which runs the
  decorators of a module not imported before.
\<close>

definition functions_of :: "string \<Rightarrow> world \<Rightarrow> FunctionMetadata list" where
  "functions_of module_name w =
     filter (\<lambda>f. module f = module_name \<or> prefix (module_name @ ''.'') (module f)) (get_all w)"

definition process_module :: "env \<Rightarrow> string \<Rightarrow> world \<Rightarrow> bool \<times> world" where
  "process_module ev module_name w =
     (let w1 = load module_name w;
          functions = functions_of module_name w1
      in if functions = [] then (True, w1)
         else (let r = fold (process_function ev) functions (True, w1)
               in (fst r, save module_name (snd r))))"

section \<open>The dispatcher (executor.py)\<close>

datatype error = RuntimeError string

definition no_implementation_message :: "string \<Rightarrow> string" where
  "no_implementation_message full_name =
     ''No implementation available for '' @ full_name @ ''. ''
     @ ''Run '' @ [CHR 0x27] @ ''make process'' @ [CHR 0x27] @ '' to generate an implementation.''"

definition parent_module :: "string \<Rightarrow> string" where
  "parent_module module_name = str_join ''.'' (butlast (str_split (CHR ''.'') module_name))"

definition func_source :: "env \<Rightarrow> pyfunc \<Rightarrow> string \<Rightarrow> string" where
  "func_source ev f impl =
     NL @ ''def implementation_func('' @ str_join '', '' (param_names f) @ ''):'' @ NL
     @ textwrap_indent ev impl ''   '' @ NL"

text \<open>
  The wrapper returned by \<open>pararun\<close>. \<open>call src args\<close> stands for executing the
  definition \<open>src\<close> and calling \<open>implementation_func\<close> with the caller's arguments;
  its value (a result or an exception of the implementation) is passed on unchanged.
\<close>

definition pararun ::
  "env \<Rightarrow> (string \<Rightarrow> 'a \<Rightarrow> 'r) \<Rightarrow> pyfunc \<Rightarrow> 'a \<Rightarrow> world \<Rightarrow> (error + 'r) \<times> world" where
  "pararun ev call f args w =
     (let full_name = f_module f @ ''.'' @ f_name f;
          module_name = f_module f;
          w1 = load module_name w;
          impl1 = get_implementation full_name w1;
          w2 = (if \<not> truthy_str impl1 \<and> parent_module module_name \<noteq> []
                then load (parent_module module_name) w1 else w1);
          impl2 = (if \<not> truthy_str impl1 \<and> parent_module module_name \<noteq> []
                   then get_implementation full_name w2 else impl1)
      in if \<not> truthy_str impl2 then
           (Inl (RuntimeError (no_implementation_message full_name)), w2)
         else (Inr (call (func_source ev f (the impl2)) args), w2))"

section \<open>Observations on a run\<close>




text \<open>
  A function is a cache hit in a state when no decision to generate it is memoized, the
  cache holds a record for its full name whose hash is the hash of its specification, and
  the registry entry under that name carries the same specification.
\<close>

definition cache_hit :: "env \<Rightarrow> world \<Rightarrow> FunctionMetadata \<Rightarrow> bool" where
  "cache_hit ev w md \<longleftrightarrow>
     needs_generation_flags w (get_full_name md) \<noteq> Some True
     \<and> (\<exists>e. cache_get (get_full_name md) w = Some e
             \<and> map_of e ''hash''
                 = Some (get_function_hash (md5_hexdigest ev) (docstring md) (signature md)))
     \<and> (\<forall>r. get (get_full_name md) w = Some r \<longrightarrow>
              docstring r = docstring md \<and> signature r = signature md)"

text \<open>
  The declarations of a state are its registry entries without their implementation
  texts. A step is quiet when it makes no request to the code generator, leaves the cache,
  the declarations and the loaded flags as they are, and memoizes no decision to generate.
\<close>

definition erase_impl :: "FunctionMetadata \<Rightarrow> FunctionMetadata" where
  "erase_impl md = md\<lparr>implementation := None\<rparr>"

definition declarations :: "world \<Rightarrow> (string \<times> FunctionMetadata) list" where
  "declarations w = map (\<lambda>(k, md). (k, erase_impl md)) (registry w)"

definition quiet :: "world \<Rightarrow> world \<Rightarrow> bool" where
  "quiet w w' \<longleftrightarrow>
     oracle_calls w' = oracle_calls w \<and> cache w' = cache w
     \<and> declarations w' = declarations w \<and> loaded_modules w' = loaded_modules w
     \<and> (\<forall>k. needs_generation_flags w' k = Some True \<longrightarrow> needs_generation_flags w k = Some True)"

section \<open>Example declarations and states\<close>

text \<open>
  The function of the demonstration program: \<open>double(fn, n)\<close> in module \<open>demo\<close>,
  specified as "double the input" with the assertion \<open>assert fn(3) == 6\<close>.
\<close>

definition demo_sig :: signature where
  "demo_sig = \<lparr>parameters = [''fn'', ''n''], sig_str = ''(fn, n)''\<rparr>"

definition demo_func :: pyfunc where
  "demo_func = \<lparr>f_module = ''demo'', f_name = ''double'', f_signature = demo_sig\<rparr>"

definition demo_decl :: decl where
  "demo_decl = \<lparr>d_func = demo_func, d_module_name = ''demo'', d_source = ''src'',
     d_docstring = ''double the input'', d_frozen = False\<rparr>"

definition w_demo :: world where
  "w_demo = decorator demo_decl init_world"

definition w_demo_frozen :: world where
  "w_demo_frozen = decorator (demo_decl\<lparr>d_frozen := True\<rparr>) init_world"

text \<open>A cache directory that holds a partition for \<open>demo\<close>, and nothing declared yet.\<close>

definition demo_record :: cache_record where
  "demo_record = [(''hash'', ''double the input|(fn, n)''), (''implementation'', ''return n * 2'')]"

definition w_partition :: world where
  "w_partition = init_world\<lparr>files := [''demo.json'' \<mapsto> Json [(''demo.double'', demo_record)]]\<rparr>"



text \<open>
  The namespaces \<open>a.b\<close> and \<open>a_b\<close>: the partition of \<open>a_b\<close> is on disk, and a
  record of \<open>a.b\<close> is in memory.
\<close>

definition w_collide :: world where
  "w_collide = store ''a.b.g'' ''h2'' ''return 2''
     (init_world\<lparr>files := [''a_b.json'' \<mapsto>
        Json [(''a_b.f'', [(''hash'', ''h1''), (''implementation'', ''return 1'')])]]\<rparr>)"

text \<open>
  A stub environment: the digest is the identity, the assertion block of every source is
  \<open>assert fn(3) == 6\<close>, \<open>dedent\<close> leaves a text as it is, \<open>indent\<close> puts the
  prefix in front of a one-line text, and the interpreter accepts exactly the test source
  built around the implementation \<open>return n * 2\<close>. The code generator always answers
  \<open>return n * 2\<close>.
\<close>

definition good_source :: string where
  "good_source = template ''n'' ''None, n'' ''        return n * 2'' ''    assert fn(3) == 6''"

definition stub_env :: env where
  "stub_env = \<lparr>md5_hexdigest = (\<lambda>s. s),
     generate_implementation = (\<lambda>history req. (True, ''return n * 2'')),
     extract_test_code = (\<lambda>src. ''assert fn(3) == 6''),
     textwrap_dedent = (\<lambda>s. s),
     textwrap_indent = (\<lambda>s p. p @ s),
     py_exec = (\<lambda>src. if src = good_source then Completed
                        else Raised ''AssertionError'')\<rparr>"


text \<open>A function of the nested module \<open>pkg.sub\<close>, declared and never processed.\<close>

definition nested_func :: pyfunc where
  "nested_func = \<lparr>f_module = ''pkg.sub'', f_name = ''h'', f_signature = demo_sig\<rparr>"

text \<open>The registry entry that the declaration of \<open>double\<close> creates.\<close>

definition demo_md :: FunctionMetadata where
  "demo_md = \<lparr>func = demo_func, name = ''double'', module = ''demo'', source = ''src'',
     docstring = ''double the input'', signature = demo_sig, frozen = False,
     implementation = None\<rparr>"

text \<open>
  The state after the first pass over \<open>demo\<close> in a fresh process with no cache on disk:
  the implementation of \<open>double\<close> has been generated.
\<close>

definition w_generated :: world where
  "w_generated = snd (process_module stub_env ''demo'' w_demo)"

text \<open>The function \<open>double\<close> declared while the partition of \<open>demo\<close> is on disk.\<close>

definition w_declared_cached :: world where
  "w_declared_cached = decorator demo_decl w_partition"

text \<open>
  After the first pass, \<open>double\<close> is declared again, now frozen and with another
  specification text, without the namespace being cleared.
\<close>

definition w_refrozen :: world where
  "w_refrozen = decorator (demo_decl\<lparr>d_docstring := ''triple the input'', d_frozen := True\<rparr>)
                  w_generated"

text \<open>
  A frozen function whose specification text differs from the one the cached record was
  made for: \<open>double\<close> declared frozen with a new text while the partition is on disk,
  and the cache loaded.
\<close>

definition frozen_md :: FunctionMetadata where
  "frozen_md = demo_md\<lparr>docstring := ''triple the input'', frozen := True\<rparr>"

definition w_frozen_cached :: world where
  "w_frozen_cached = load ''demo''
     (decorator (demo_decl\<lparr>d_docstring := ''triple the input'', d_frozen := True\<rparr>) w_partition)"

text \<open>
  The reload of \<open>demo\<close> after the first pass: the namespace is cleared and \<open>double\<close> is
  declared again, unchanged.
\<close>

definition w_reloaded :: world where
  "w_reloaded = decorator demo_decl (clear_module ''demo'' w_generated)"

section \<open>The specification hash\<close>

text \<open>
  The hash that \<open>process_module\<close> stores in the cache and the hash that
  \<open>needs_generation\<close> compares with it are computed alike.
\<close>

lemma hash_functions_agree:
  "get_function_hash md5_hex (docstring md) (signature md) = get_hash md5_hex md"
  by (simp add: get_function_hash_def get_hash_def)

text \<open>
  With the other component fixed, the digest's input determines the docstring and the
  rendering of the signature.
\<close>

lemma hash_input_inj_docstring: "hash_input d sg = hash_input d' sg \<Longrightarrow> d = d'"
  by (simp add: hash_input_def)

lemma hash_input_inj_signature:
  "hash_input d sg = hash_input d sg' \<Longrightarrow> sig_str sg = sig_str sg'"
  by (simp add: hash_input_def)


section \<open>The registry: needs\_generation\<close>

text \<open>
  Claim C3. \<open>needs_generation\<close> returns the memoized decision when there is one and
  leaves the state as it is. Without one it answers false for an unregistered or a frozen
  name, true when no cached hash is given, and otherwise whether the hash of the registered
  specification differs from the cached hash; it then records this answer under the full
  name. Any later call for that name, whatever cached hash it passes, returns the same
  answer and the same state, and clearing a namespace that prefixes the name removes the
  record.
\<close>

theorem needs_generation_contract:
  assumes "needs_generation md5_hex full_name cached_hash w = (b, w')"
  shows "(\<forall>flag. needs_generation_flags w full_name = Some flag \<longrightarrow> b = flag \<and> w' = w)
    \<and> (needs_generation_flags w full_name = None \<longrightarrow>
         (get full_name w = None \<longrightarrow> b = False)
       \<and> (\<forall>md. get full_name w = Some md \<and> frozen md \<longrightarrow> b = False)
       \<and> (\<forall>md. get full_name w = Some md \<and> \<not> frozen md \<and> cached_hash = None \<longrightarrow> b = True)
       \<and> (\<forall>md h. get full_name w = Some md \<and> \<not> frozen md \<and> cached_hash = Some h \<longrightarrow>
              b = (get_hash md5_hex md \<noteq> h))
       \<and> w' = w\<lparr>needs_generation_flags := (needs_generation_flags w)(full_name \<mapsto> b)\<rparr>)
    \<and> (\<forall>h'. needs_generation md5_hex full_name h' w' = (b, w'))
    \<and> (\<forall>ns. prefix ns full_name \<longrightarrow> needs_generation_flags (clear_module ns w') full_name = None)"
  using assms
  by (auto simp add: needs_generation_def set_flag_def get_def clear_module_def Let_def split: option.splits if_splits)


theorem needs_generation_contract_witness:
  "needs_generation (\<lambda>s. s) ''demo.double'' (Some ''h'') (set_flag ''demo.double'' False w_demo)
     = (False, set_flag ''demo.double'' False w_demo)
   \<and> fst (needs_generation (\<lambda>s. s) ''demo.other'' None w_demo) = False
   \<and> fst (needs_generation (\<lambda>s. s) ''demo.double'' (Some ''h'') w_demo_frozen) = False
   \<and> fst (needs_generation (\<lambda>s. s) ''demo.double'' None w_demo) = True
   \<and> fst (needs_generation (\<lambda>s. s) ''demo.double'' (Some ''h'') w_demo) = True
   \<and> fst (needs_generation (\<lambda>s. s) ''demo.double'' (Some ''double the input|(fn, n)'') w_demo) = False
   \<and> needs_generation (\<lambda>s. s) ''demo.double'' (Some ''double the input|(fn, n)'')
        (snd (needs_generation (\<lambda>s. s) ''demo.double'' None w_demo))
       = needs_generation (\<lambda>s. s) ''demo.double'' None w_demo
   \<and> needs_generation_flags (clear_module ''demo''
         (snd (needs_generation (\<lambda>s. s) ''demo.double'' None w_demo))) ''demo.double'' = None"
  using
    needs_generation_contract [where md5_hex = "\<lambda>s. s"
      and full_name = "''demo.double''" and cached_hash = "Some ''h''"
      and w = "set_flag ''demo.double'' False w_demo", OF surjective_pairing]
    needs_generation_contract [where md5_hex = "\<lambda>s. s"
      and full_name = "''demo.other''" and cached_hash = None and w = w_demo, OF surjective_pairing]
    needs_generation_contract [where md5_hex = "\<lambda>s. s"
      and full_name = "''demo.double''" and cached_hash = "Some ''h''" and w = w_demo_frozen, OF surjective_pairing]
    needs_generation_contract [where md5_hex = "\<lambda>s. s"
      and full_name = "''demo.double''" and cached_hash = None and w = w_demo, OF surjective_pairing]
    needs_generation_contract [where md5_hex = "\<lambda>s. s"
      and full_name = "''demo.double''" and cached_hash = "Some ''h''" and w = w_demo, OF surjective_pairing]
    needs_generation_contract [where md5_hex = "\<lambda>s. s"
      and full_name = "''demo.double''" and cached_hash = "Some ''double the input|(fn, n)''" and w = w_demo, OF surjective_pairing]
  by (simp add: w_demo_def w_demo_frozen_def demo_decl_def demo_func_def demo_sig_def decorator_def
        register_def init_world_def set_flag_def get_def
        get_hash_def hash_input_def needs_generation_def clear_module_def)


section \<open>The registry: stored implementations\<close>

lemma implementations_load_entry_other:
  "fst p \<noteq> fn \<Longrightarrow> implementations (load_entry p w) fn = implementations w fn"
  by (simp add: load_entry_def store_implementation_def split: option.splits)

lemma implementations_fold_load_entry_other:
  "fn \<notin> fst ` set mc \<Longrightarrow> implementations (fold load_entry mc w) fn = implementations w fn"
  by (induction mc arbitrary: w) (auto simp add: implementations_load_entry_other)

lemma implementations_fold_load_entry:
  "distinct (map fst mc) \<Longrightarrow> (fn, e) \<in> set mc \<Longrightarrow> map_of e ''implementation'' = Some t
     \<Longrightarrow> implementations (fold load_entry mc w) fn = Some t"
proof (induction mc arbitrary: w)
  case Nil
  then show ?case by simp
next
  case (Cons p mc)
  show ?case
  proof (cases "p = (fn, e)")
    case True
    with Cons.prems have "fn \<notin> fst ` set mc" by auto
    then have "implementations (fold load_entry mc (load_entry p w)) fn
                 = implementations (load_entry p w) fn"
      by (rule implementations_fold_load_entry_other)
    moreover from True Cons.prems have "implementations (load_entry p w) fn = Some t"
      by (simp add: load_entry_def store_implementation_def)
    ultimately show ?thesis by simp
  next
    case False
    with Cons.prems have "(fn, e) \<in> set mc" "distinct (map fst mc)" by auto
    with Cons.IH Cons.prems show ?thesis by simp
  qed
qed

text \<open>
  Claim C10. After \<open>store_implementation\<close> for a full name, \<open>get_implementation\<close>
  returns the stored text, whether or not the name is registered; storing does not
  register the name; a declaration that arrives after the text was stored leaves it
  resolvable; and a cache load of a partition that holds an implementation for a name
  makes that implementation resolvable, registered or not.
\<close>

theorem store_then_get_implementation:
  "get_implementation full_name (store_implementation full_name text w) = Some text
   \<and> (get full_name w = None \<longrightarrow> get full_name (store_implementation full_name text w) = None)
   \<and> get_implementation (modname @ ''.'' @ nm)
        (register f nm modname src doc sg frz
           (store_implementation (modname @ ''.'' @ nm) text w)) = Some text
   \<and> (module_name \<notin> loaded_modules w
        \<and> files w (module_name_to_cache_file module_name) = Some (Json module_cache)
        \<and> distinct (map fst module_cache) \<and> (full_name, e) \<in> set module_cache
        \<and> map_of e ''implementation'' = Some text
      \<longrightarrow> get_implementation full_name (load module_name w) = Some text)"
proof (intro conjI impI)
  show "get_implementation full_name (store_implementation full_name text w) = Some text"
    by (simp add: get_implementation_def store_implementation_def)
  show "get full_name (store_implementation full_name text w) = None" if "get full_name w = None"
    using that by (simp add: get_def store_implementation_def map_of_map_entry)
  show "get_implementation (modname @ ''.'' @ nm)
        (register f nm modname src doc sg frz
           (store_implementation (modname @ ''.'' @ nm) text w)) = Some text"
    by (simp add: get_implementation_def store_implementation_def register_def)
  show "get_implementation full_name (load module_name w) = Some text"
    if h: "module_name \<notin> loaded_modules w
        \<and> files w (module_name_to_cache_file module_name) = Some (Json module_cache)
        \<and> distinct (map fst module_cache) \<and> (full_name, e) \<in> set module_cache
        \<and> map_of e ''implementation'' = Some text"
  proof -
    from h have "implementations (fold load_entry module_cache (merge_cache module_cache w)) full_name
                   = Some text"
      by (intro implementations_fold_load_entry) auto
    with h show ?thesis
      by (simp add: load_def get_implementation_def Let_def)
  qed
qed

theorem store_then_get_implementation_witness:
  "get ''demo.double'' init_world = None
   \<and> get ''demo.double'' (store_implementation ''demo.double'' ''return n * 2'' init_world) = None
   \<and> get_implementation ''demo.double''
         (store_implementation ''demo.double'' ''return n * 2'' init_world) = Some ''return n * 2''
   \<and> ''demo'' \<notin> loaded_modules w_partition
   \<and> files w_partition (module_name_to_cache_file ''demo'')
         = Some (Json [(''demo.double'', demo_record)])
   \<and> map_of demo_record ''implementation'' = Some ''return n * 2''
   \<and> get_implementation ''demo.double'' (load ''demo'' w_partition) = Some ''return n * 2''"
proof -
  have a: "get ''demo.double'' init_world = None"
    by (simp add: get_def init_world_def)
  have b: "''demo'' \<notin> loaded_modules w_partition
     \<and> files w_partition (module_name_to_cache_file ''demo'')
          = Some (Json [(''demo.double'', demo_record)])
     \<and> distinct (map fst [(''demo.double'', demo_record)])
     \<and> (''demo.double'', demo_record) \<in> set [(''demo.double'', demo_record)]
     \<and> map_of demo_record ''implementation'' = Some ''return n * 2''"
    by (simp add: w_partition_def init_world_def module_name_to_cache_file_def
          str_replace_char_def demo_record_def)
  from a b
    store_then_get_implementation [of "''demo.double''" "''return n * 2''" init_world
      "''demo''" "''double''" demo_func "''src''" "''doc''" demo_sig False]
    store_then_get_implementation [of "''demo.double''" "''return n * 2''" w_partition
      "''demo''" "''double''" demo_func "''src''" "''doc''" demo_sig False "''demo''"
      "[(''demo.double'', demo_record)]" demo_record]
  show ?thesis by simp
qed

section \<open>Clearing a namespace\<close>







section \<open>Saving a partition\<close>

lemma save_writes_prefixed_only:
  "files (save module_name w) (module_name_to_cache_file module_name) = Some (Json mc)
     \<Longrightarrow> module_name_to_cache_file module_name \<notin> read_only w
     \<Longrightarrow> mc = filter (\<lambda>p. prefix (module_name @ ''.'') (fst p)) (cache w)"
  by (auto simp add: save_def Let_def case_prod_unfold)

lemma save_other_files:
  "file \<noteq> module_name_to_cache_file module_name \<Longrightarrow> files (save module_name w) file = files w file"
  by (simp add: save_def Let_def)

text \<open>
  Claim C8 at the namespaces \<open>a.b\<close> and \<open>a_b\<close>: both are stored under the file name
  \<open>a_b.json\<close>, so saving \<open>a.b\<close> replaces the persisted partition of \<open>a_b\<close>.
\<close>

theorem save_overwrites_colliding_partition:
  "module_name_to_cache_file ''a.b'' = module_name_to_cache_file ''a_b''
   \<and> files w_collide (module_name_to_cache_file ''a_b'')
        = Some (Json [(''a_b.f'', [(''hash'', ''h1''), (''implementation'', ''return 1'')])])
   \<and> files (save ''a.b'' w_collide) (module_name_to_cache_file ''a_b'')
        = Some (Json [(''a.b.g'', [(''hash'', ''h2''), (''implementation'', ''return 2'')])])"
  by (simp add: w_collide_def init_world_def store_def save_def module_name_to_cache_file_def
        str_replace_char_def Let_def)


section \<open>The verification harness\<close>

lemma str_join_Cons:
  "str_join sep (x # ys) = (if ys = [] then x else x @ sep @ str_join sep ys)"
  by (cases ys) simp_all

text \<open>
  Claim C6. The text that \<open>run_test\<close> executes defines \<open>implementation_func\<close> over the
  declared parameters without \<open>fn\<close>, with the dedented candidate as its body, inside
  \<open>test_implementation\<close>, which calls it; it defines \<open>fn\<close> over the same parameters
  as a call of \<open>test_implementation\<close> with \<open>None\<close> for the self-reference parameter,
  so that \<open>fn\<close> runs that same candidate; and it runs the dedented assertion block after
  this definition of \<open>fn\<close>. \<open>run_test\<close> reports a pass, with no diagnostic, exactly
  when executing this text completes without raising; when it raises, \<open>run_test\<close>
  reports a failure with the formatted traceback, which is never empty.
\<close>

theorem run_test_executes_harness:
  assumes ps: "ps = filter (\<lambda>p. p \<noteq> ''fn'') (parameters (f_signature f))"
    and src: "src =
       NL
       @ ''def test_implementation(fn, '' @ str_join '', '' ps @ ''):'' @ NL
       @ ''    def implementation_func('' @ str_join '', '' ps @ ''):'' @ NL
       @ textwrap_indent ev (textwrap_dedent ev impl) ''        '' @ NL
       @ ''        '' @ NL
       @ ''    return implementation_func('' @ str_join '', '' ps @ '')'' @ NL
       @ NL
       @ ''def run_test():'' @ NL
       @ ''    # Define a mock fn function that calls the implementation'' @ NL
       @ ''    def fn('' @ str_join '', '' ps @ ''):'' @ NL
       @ ''        return test_implementation(''
           @ (if ps = [] then ''None'' else ''None, '' @ str_join '', '' ps) @ '')'' @ NL
       @ ''    '' @ NL
       @ ''    # Run the test code'' @ NL
       @ textwrap_indent ev (textwrap_dedent ev tc) ''    '' @ NL
       @ ''    '' @ NL
       @ ''    return True  # If we got here, tests passed'' @ NL"
  shows "test_func_source ev f impl tc = src
     \<and> ''fn'' \<notin> set ps
     \<and> set ps = set (parameters (f_signature f)) - {''fn''}
     \<and> (run_test ev f impl tc = (True, None) \<longleftrightarrow> py_exec ev src = Completed)
     \<and> (fst (run_test ev f impl tc) \<longleftrightarrow> py_exec ev src = Completed)
     \<and> (\<forall>e. py_exec ev src = Raised e \<longrightarrow>
           run_test ev f impl tc = (False, Some (format_exc e)) \<and> format_exc e \<noteq> [])
     \<and> (\<not> fst (run_test ev f impl tc) \<longrightarrow>
           (\<exists>d. snd (run_test ev f impl tc) = Some d \<and> d \<noteq> []))"
proof -
  have s: "test_func_source ev f impl tc = src"
    unfolding src ps
    by (simp add: test_func_source_def template_def param_names_def str_join_Cons Let_def)
  have p: "''fn'' \<notin> set ps" "set ps = set (parameters (f_signature f)) - {''fn''}"
    unfolding ps by auto
  have r: "(run_test ev f impl tc = (True, None) \<longleftrightarrow> py_exec ev src = Completed)
     \<and> (fst (run_test ev f impl tc) \<longleftrightarrow> py_exec ev src = Completed)
     \<and> (\<forall>e. py_exec ev src = Raised e \<longrightarrow>
           run_test ev f impl tc = (False, Some (format_exc e)) \<and> format_exc e \<noteq> [])
     \<and> (\<not> fst (run_test ev f impl tc) \<longrightarrow>
           (\<exists>d. snd (run_test ev f impl tc) = Some d \<and> d \<noteq> []))"
    by (cases "py_exec ev src") (auto simp add: run_test_def s format_exc_def)
  from s p r show ?thesis by simp
qed


lemma stub_good_source:
  "test_func_source stub_env demo_func ''return n * 2'' ''assert fn(3) == 6'' = good_source"
  by (simp add: test_func_source_def stub_env_def demo_func_def demo_sig_def param_names_def
        good_source_def Let_def)

lemma stub_bad_source:
  "test_func_source stub_env demo_func ''return n + 2'' ''assert fn(3) == 6'' \<noteq> good_source"
  by (simp add: test_func_source_def stub_env_def demo_func_def demo_sig_def param_names_def
        good_source_def template_def NL_def Let_def)

theorem run_test_executes_harness_witness:
  "filter (\<lambda>p. p \<noteq> ''fn'') (parameters (f_signature demo_func)) = [''n'']
   \<and> test_func_source stub_env demo_func ''return n * 2'' ''assert fn(3) == 6''
       = template ''n'' ''None, n'' ''        return n * 2'' ''    assert fn(3) == 6''
   \<and> py_exec stub_env (test_func_source stub_env demo_func ''return n * 2'' ''assert fn(3) == 6'')
     = Completed
   \<and> run_test stub_env demo_func ''return n * 2'' ''assert fn(3) == 6'' = (True, None)
   \<and> test_func_source stub_env demo_func ''return n + 2'' ''assert fn(3) == 6''
       = template ''n'' ''None, n'' ''        return n + 2'' ''    assert fn(3) == 6''
   \<and> py_exec stub_env (test_func_source stub_env demo_func ''return n + 2'' ''assert fn(3) == 6'')
     = Raised ''AssertionError''
   \<and> run_test stub_env demo_func ''return n + 2'' ''assert fn(3) == 6''
     = (False, Some (format_exc ''AssertionError''))"
proof -
  note good = run_test_executes_harness [where f = demo_func and ev = stub_env
      and impl = "''return n * 2''" and tc = "''assert fn(3) == 6''", OF refl refl]
  note bad = run_test_executes_harness [where f = demo_func and ev = stub_env
      and impl = "''return n + 2''" and tc = "''assert fn(3) == 6''", OF refl refl]
  have ps: "filter (\<lambda>p. p \<noteq> ''fn'') (parameters (f_signature demo_func)) = [''n'']"
    by (simp add: demo_func_def demo_sig_def)
  have ind: "textwrap_indent stub_env (textwrap_dedent stub_env t) p = p @ t" for t p
    by (simp add: stub_env_def)
  from good have gs: "test_func_source stub_env demo_func ''return n * 2'' ''assert fn(3) == 6''
       = template ''n'' ''None, n'' ''        return n * 2'' ''    assert fn(3) == 6''"
    unfolding ps ind by (simp add: template_def)
  from bad have bs: "test_func_source stub_env demo_func ''return n + 2'' ''assert fn(3) == 6''
       = template ''n'' ''None, n'' ''        return n + 2'' ''    assert fn(3) == 6''"
    unfolding ps ind by (simp add: template_def)
  have ge: "py_exec stub_env (test_func_source stub_env demo_func ''return n * 2'' ''assert fn(3) == 6'')
     = Completed"
    unfolding gs by (simp add: stub_env_def good_source_def)
  have be: "py_exec stub_env (test_func_source stub_env demo_func ''return n + 2'' ''assert fn(3) == 6'')
     = Raised ''AssertionError''"
    unfolding bs by (simp add: stub_env_def good_source_def template_def NL_def)
  from good ge have gr: "run_test stub_env demo_func ''return n * 2'' ''assert fn(3) == 6'' = (True, None)"
    by metis
  from bad be have br: "run_test stub_env demo_func ''return n + 2'' ''assert fn(3) == 6''
     = (False, Some (format_exc ''AssertionError''))"
    by metis
  from ps gs ge gr bs be br show ?thesis by simp
qed


section \<open>The dispatcher\<close>

text \<open>
  Claim C9. When the registry resolves no implementation after the cache of the function's
  module has been loaded, and either the module has no parent or the registry still
  resolves none after the parent's cache has been loaded too, the call ends in the
  runtime error that names the function and tells how to generate an implementation. The
  result does not depend on the executor, which is not reached.
\<close>

theorem pararun_no_implementation:
  assumes "\<not> truthy_str (get_implementation (f_module f @ ''.'' @ f_name f) (load (f_module f) w))"
    and "parent_module (f_module f) = []
         \<or> \<not> truthy_str (get_implementation (f_module f @ ''.'' @ f_name f)
                (load (parent_module (f_module f)) (load (f_module f) w)))"
  shows "fst (pararun ev call f args w)
           = Inl (RuntimeError (no_implementation_message (f_module f @ ''.'' @ f_name f)))
         \<and> (\<forall>call'. fst (pararun ev call' f args w) = fst (pararun ev call f args w))"
  using assms by (auto simp add: pararun_def Let_def)

lemma parent_module_examples:
  "parent_module ''demo'' = []" "parent_module ''pkg.sub'' = ''pkg''"
  by (simp_all add: parent_module_def)

theorem pararun_no_implementation_witness:
  "fst (pararun stub_env (\<lambda>src args. (0::nat)) demo_func [3::nat] w_demo)
     = Inl (RuntimeError (no_implementation_message ''demo.double''))
   \<and> parent_module ''pkg.sub'' = ''pkg''
   \<and> fst (pararun stub_env (\<lambda>src args. (0::nat)) nested_func [3::nat] init_world)
     = Inl (RuntimeError (no_implementation_message ''pkg.sub.h''))"
proof -
  have a: "\<not> truthy_str (get_implementation (f_module demo_func @ ''.'' @ f_name demo_func)
             (load (f_module demo_func) w_demo))"
    by (simp add: truthy_str_def get_implementation_def load_def w_demo_def decorator_def
          register_def demo_decl_def demo_func_def init_world_def Let_def)
  have b: "parent_module (f_module demo_func) = []"
    by (simp add: demo_func_def parent_module_def)
  have c: "\<not> truthy_str (get_implementation (f_module nested_func @ ''.'' @ f_name nested_func)
             (load (f_module nested_func) init_world))"
    by (simp add: truthy_str_def get_implementation_def load_def nested_func_def init_world_def
          Let_def)
  have d: "\<not> truthy_str (get_implementation (f_module nested_func @ ''.'' @ f_name nested_func)
             (load (parent_module (f_module nested_func)) (load (f_module nested_func) init_world)))"
    by (simp add: truthy_str_def get_implementation_def load_def nested_func_def init_world_def
          parent_module_def Let_def)
  from pararun_no_implementation [OF a disjI1 [OF b], of stub_env "\<lambda>src args. (0::nat)" "[3::nat]"]
    pararun_no_implementation [OF c disjI2 [OF d], of stub_env "\<lambda>src args. (0::nat)" "[3::nat]"]
  show ?thesis
    by (simp add: demo_func_def nested_func_def parent_module_def)
qed


section \<open>The retry protocol\<close>










lemma oracle_calls_store_implementation [simp]:
  "oracle_calls (store_implementation k i w) = oracle_calls w"
  by (simp add: store_implementation_def)

lemma get_implementation_store_implementation [simp]:
  "get_implementation k (store_implementation k i w) = Some i"
  by (simp add: get_implementation_def store_implementation_def)


lemma get_implementation_store [simp]:
  "get_implementation k (store k' h i w) = get_implementation k w"
  by (simp add: get_implementation_def store_def cong: option.case_cong)









lemma w_demo_fields:
  "registry w_demo = [(''demo.double'', demo_md)]" "cache w_demo = []"
  "needs_generation_flags w_demo = Map.empty" "oracle_calls w_demo = []"
  "implementations w_demo = Map.empty"
  by (simp_all add: w_demo_def decorator_def register_def demo_decl_def demo_md_def init_world_def
        demo_func_def)

lemma demo_md_fields:
  "func demo_md = demo_func" "name demo_md = ''double''" "module demo_md = ''demo''"
  "docstring demo_md = ''double the input''" "signature demo_md = demo_sig"
  "source demo_md = ''src''" "frozen demo_md = False" "get_full_name demo_md = ''demo.double''"
  by (simp_all add: demo_md_def get_full_name_def)


lemma attempts_list: "[0..<max_attempts] = [0, Suc 0, Suc (Suc 0)]"
  by (simp add: max_attempts_def numeral_3_eq_3)

lemma demo_func_fields: "f_module demo_func = ''demo''" "f_name demo_func = ''double''"
  by (simp_all add: demo_func_def)



lemma demo_hash: "get_function_hash (\<lambda>s. s) ''double the input'' demo_sig = ''double the input|(fn, n)''"
  by (simp add: get_function_hash_def hash_input_def demo_sig_def)




section \<open>Cache hits\<close>

lemma declarations_store_implementation [simp]:
  "declarations (store_implementation k i w) = declarations w"
proof -
  have "map (\<lambda>(k, md). (k, erase_impl md))
          (AList.map_entry k (\<lambda>md. md\<lparr>implementation := Some i\<rparr>) xs)
        = map (\<lambda>(k, md). (k, erase_impl md)) xs" for xs
    by (induction xs) (auto simp add: erase_impl_def)
  then show ?thesis by (simp add: declarations_def store_implementation_def)
qed

lemma map_of_declarations:
  "map_of (declarations w) k = map_option erase_impl (get k w)"
  by (simp add: declarations_def get_def map_of_map)

lemma erase_impl_fields:
  "docstring (erase_impl md) = docstring md" "signature (erase_impl md) = signature md"
  "module (erase_impl md) = module md" "name (erase_impl md) = name md"
  "get_full_name (erase_impl md) = get_full_name md"
  by (simp_all add: erase_impl_def get_full_name_def)

lemma erase_impl_eqD:
  assumes "erase_impl a = erase_impl b"
  shows "docstring a = docstring b" "signature a = signature b" "module a = module b"
    "get_full_name a = get_full_name b"
  using assms erase_impl_fields by metis+

lemma quiet_refl: "quiet w w"
  by (simp add: quiet_def)

lemma quiet_trans: "quiet a b \<Longrightarrow> quiet b c \<Longrightarrow> quiet a c"
  by (simp add: quiet_def)

lemma cache_hit_quiet:
  assumes q: "quiet w w'" and e: "erase_impl md' = erase_impl md" and hit: "cache_hit ev w md"
  shows "cache_hit ev w' md'"
proof -
  note eq = erase_impl_eqD [OF e]
  from q hit have flag: "needs_generation_flags w' (get_full_name md') \<noteq> Some True"
    by (auto simp add: quiet_def cache_hit_def eq)
  from q hit have rec: "\<exists>e. cache_get (get_full_name md') w' = Some e
             \<and> map_of e ''hash''
                 = Some (get_function_hash (md5_hexdigest ev) (docstring md') (signature md'))"
    by (simp add: quiet_def cache_hit_def cache_get_def eq)
  have reg: "docstring r' = docstring md' \<and> signature r' = signature md'"
    if r': "get (get_full_name md') w' = Some r'" for r'
  proof -
    from q have "map_of (declarations w') (get_full_name md') = map_of (declarations w) (get_full_name md')"
      by (simp add: quiet_def)
    with r' have "map_option erase_impl (get (get_full_name md) w) = Some (erase_impl r')"
      by (simp add: map_of_declarations eq)
    then obtain r where r: "get (get_full_name md) w = Some r" and rr: "erase_impl r = erase_impl r'"
      by (cases "get (get_full_name md) w") auto
    from hit r have "docstring r = docstring md \<and> signature r = signature md"
      by (simp add: cache_hit_def)
    with erase_impl_eqD [OF rr] eq show ?thesis by simp
  qed
  from flag rec reg show ?thesis by (simp add: cache_hit_def)
qed

lemma set_flag_same:
  "needs_generation_flags w k = Some b \<Longrightarrow> set_flag k b w = w"
  by (simp add: set_flag_def fun_upd_idem)

lemma hit_needs_generation:
  assumes "cache_hit ev w md"
  shows "needs_generation (md5_hexdigest ev) (get_full_name md)
           (cached_hash_of (get_full_name md) w) w
         = (False, set_flag (get_full_name md) False w)"
proof -
  from assms obtain e where e: "cache_get (get_full_name md) w = Some e"
    and h: "map_of e ''hash''
              = Some (get_function_hash (md5_hexdigest ev) (docstring md) (signature md))"
    by (auto simp add: cache_hit_def)
  from h have ne: "e \<noteq> []" by auto
  with e h have ch: "cached_hash_of (get_full_name md) w
      = Some (get_function_hash (md5_hexdigest ev) (docstring md) (signature md))"
    by (simp add: cached_hash_of_def truthy_record_def)
  show ?thesis
  proof (cases "needs_generation_flags w (get_full_name md)")
    case None
    with assms ch show ?thesis
      by (auto simp add: needs_generation_def cache_hit_def get_def get_hash_def
            get_function_hash_def Let_def split: option.splits)
  next
    case (Some b)
    with assms have "b = False" by (simp add: cache_hit_def)
    with Some show ?thesis
      by (simp add: needs_generation_def set_flag_same)
  qed
qed

lemma hit_step:
  assumes "cache_hit ev w md"
  shows "process_function ev md (s, w)
         = (s, store_implementation (get_full_name md)
                 (cached_implementation_of (get_full_name md) w)
                 (set_flag (get_full_name md) False w))"
proof -
  from assms obtain e where e: "cache_get (get_full_name md) w = Some e"
    and h: "map_of e ''hash''
              = Some (get_function_hash (md5_hexdigest ev) (docstring md) (signature md))"
    by (auto simp add: cache_hit_def)
  from h have "e \<noteq> []" by auto
  with e have "truthy_record (cache_get (get_full_name md) w)"
    by (simp add: truthy_record_def)
  then show ?thesis
    by (simp add: process_function_def Let_def hit_needs_generation [OF assms])
qed

lemma quiet_hit_step:
  assumes "needs_generation_flags w k \<noteq> Some True"
  shows "quiet w (store_implementation k i (set_flag k False w))"
proof -
  have "declarations (set_flag k False w) = declarations w"
    by (simp add: declarations_def set_flag_def)
  with assms show ?thesis
    by (simp add: quiet_def) (simp add: store_implementation_def set_flag_def)
qed

lemma fold_hits:
  "\<forall>md \<in> set fs. cache_hit ev w md \<Longrightarrow>
     fst (fold (process_function ev) fs (s, w)) = s
     \<and> quiet w (snd (fold (process_function ev) fs (s, w)))"
proof (induction fs arbitrary: w)
  case Nil
  then show ?case by (simp add: quiet_refl)
next
  case (Cons md fs)
  let ?w2 = "store_implementation (get_full_name md)
                 (cached_implementation_of (get_full_name md) w)
                 (set_flag (get_full_name md) False w)"
  from Cons.prems have hit: "cache_hit ev w md" by simp
  then have step: "process_function ev md (s, w) = (s, ?w2)" by (rule hit_step)
  from hit have q: "quiet w ?w2"
    by (intro quiet_hit_step) (simp add: cache_hit_def)
  from Cons.prems have "\<forall>m \<in> set fs. cache_hit ev ?w2 m"
    using cache_hit_quiet [OF q refl] by simp
  from Cons.IH [OF this] q show ?case
    by (auto simp add: step intro: quiet_trans)
qed

lemma oracle_calls_fold_load_entry:
  "oracle_calls (fold load_entry mc w) = oracle_calls w"
  by (induction mc arbitrary: w) (simp_all add: load_entry_def store_implementation_def split: option.splits)

lemma oracle_calls_load [simp]: "oracle_calls (load ns w) = oracle_calls w"
  by (simp add: load_def Let_def oracle_calls_fold_load_entry merge_cache_def
        split: option.splits cache_file.splits)

lemma loaded_load: "ns \<in> loaded_modules (load ns w)"
  by (simp add: load_def Let_def)

lemma load_loaded: "ns \<in> loaded_modules w \<Longrightarrow> load ns w = w"
  by (simp add: load_def)

lemma quiet_save: "quiet w (save ns w)"
  by (simp add: quiet_def save_def Let_def declarations_def)

lemma functions_of_quiet:
  assumes "quiet w w'"
  shows "map erase_impl (functions_of ns w') = map erase_impl (functions_of ns w)"
proof -
  have "map erase_impl (functions_of ns v)
        = filter (\<lambda>f. module f = ns \<or> prefix (ns @ ''.'') (module f)) (map snd (declarations v))" for v
    by (simp add: functions_of_def get_all_def declarations_def filter_map comp_def
          case_prod_unfold erase_impl_fields)
  with assms show ?thesis by (simp add: quiet_def)
qed

lemma pass_hits:
  assumes "\<forall>md \<in> set (functions_of ns (load ns w)). cache_hit ev (load ns w) md"
  shows "fst (process_module ev ns w) \<and> quiet (load ns w) (snd (process_module ev ns w))"
proof (cases "functions_of ns (load ns w) = []")
  case True
  then show ?thesis by (simp add: process_module_def Let_def quiet_refl)
next
  case False
  from fold_hits [OF assms, of True]
  have "fst (fold (process_function ev) (functions_of ns (load ns w)) (True, load ns w))"
    and "quiet (load ns w) (snd (fold (process_function ev) (functions_of ns (load ns w)) (True, load ns w)))"
    by simp_all
  with False show ?thesis
    by (auto simp add: process_module_def Let_def intro: quiet_trans quiet_save)
qed

text \<open>
  Where the short circuit works. When a function is reached with no memoized decision to
  generate it, a cache record whose hash equals the hash of its specification, and its
  declaration in the registry, processing it makes no request to the code generator,
  leaves the success flag as it is and stores the cached implementation in the registry.
  When this holds for every function of a namespace after its cache is loaded, as in a
  fresh process or after a reload, the pass succeeds without any request, and so does a
  second pass over the same namespace.
\<close>

theorem cache_hit_short_circuit:
  "(cache_hit ev w0 md \<longrightarrow>
      fst (process_function ev md (s, w0)) = s
      \<and> oracle_calls (snd (process_function ev md (s, w0))) = oracle_calls w0
      \<and> get_implementation (get_full_name md) (snd (process_function ev md (s, w0)))
          = Some (cached_implementation_of (get_full_name md) w0))
   \<and> ((\<forall>md \<in> set (functions_of ns (load ns w)). cache_hit ev (load ns w) md) \<longrightarrow>
        fst (process_module ev ns w)
        \<and> oracle_calls (snd (process_module ev ns w)) = oracle_calls w
        \<and> fst (process_module ev ns (snd (process_module ev ns w)))
        \<and> oracle_calls (snd (process_module ev ns (snd (process_module ev ns w)))) = oracle_calls w)"
proof (intro conjI impI)
  assume hit: "cache_hit ev w0 md"
  note step = hit_step [OF hit, of s]
  show "fst (process_function ev md (s, w0)) = s" by (simp add: step)
  show "oracle_calls (snd (process_function ev md (s, w0))) = oracle_calls w0"
    by (simp add: step store_implementation_def set_flag_def)
  show "get_implementation (get_full_name md) (snd (process_function ev md (s, w0)))
          = Some (cached_implementation_of (get_full_name md) w0)"
    by (simp add: step get_implementation_def store_implementation_def)
next
  assume hits: "\<forall>md \<in> set (functions_of ns (load ns w)). cache_hit ev (load ns w) md"
  let ?w' = "snd (process_module ev ns w)"
  from pass_hits [OF hits] have ok: "fst (process_module ev ns w)"
    and q: "quiet (load ns w) ?w'" by simp_all
  from q have calls: "oracle_calls ?w' = oracle_calls w" by (simp add: quiet_def)
  from q loaded_load [of ns w] have "ns \<in> loaded_modules ?w'" by (simp add: quiet_def)
  then have same: "load ns ?w' = ?w'" by (rule load_loaded)
  have hits': "\<forall>md' \<in> set (functions_of ns (load ns ?w')). cache_hit ev (load ns ?w') md'"
  proof
    fix md' assume "md' \<in> set (functions_of ns (load ns ?w'))"
    then have "erase_impl md' \<in> set (map erase_impl (functions_of ns ?w'))"
      by (simp add: same)
    then have "erase_impl md' \<in> set (map erase_impl (functions_of ns (load ns w)))"
      by (simp only: functions_of_quiet [OF q])
    then obtain md where md: "md \<in> set (functions_of ns (load ns w))"
      and e: "erase_impl md' = erase_impl md" by auto
    from hits md have "cache_hit ev (load ns w) md" by simp
    from cache_hit_quiet [OF q e this] show "cache_hit ev (load ns ?w') md'"
      by (simp add: same)
  qed
  from pass_hits [OF hits'] have ok2: "fst (process_module ev ns ?w')"
    and q2: "quiet (load ns ?w') (snd (process_module ev ns ?w'))" by simp_all
  from q2 calls have calls2: "oracle_calls (snd (process_module ev ns ?w')) = oracle_calls w"
    by (simp add: quiet_def same)
  show "fst (process_module ev ns w)" by (rule ok)
  show "oracle_calls ?w' = oracle_calls w" by (rule calls)
  show "fst (process_module ev ns ?w')" by (rule ok2)
  show "oracle_calls (snd (process_module ev ns ?w')) = oracle_calls w" by (rule calls2)
qed


section \<open>Passes over the demonstration module\<close>

lemma stub_run_test_good:
  "run_test stub_env demo_func ''return n * 2'' ''assert fn(3) == 6'' = (True, None)"
  by (simp add: run_test_def stub_good_source) (simp add: stub_env_def)

lemma stub_env_fields:
  "md5_hexdigest stub_env = (\<lambda>s. s)" "extract_test_code stub_env = (\<lambda>src. ''assert fn(3) == 6'')"
  "generate_implementation stub_env = (\<lambda>history req. (True, ''return n * 2''))"
  by (simp_all add: stub_env_def)

lemma w_demo_cache_fields:
  "loaded_modules w_demo = {}" "files w_demo = Map.empty" "read_only w_demo = {}"
  by (simp_all add: w_demo_def decorator_def register_def init_world_def)

lemma demo_json: "module_name_to_cache_file ''demo'' = ''demo.json''"
  by (simp add: module_name_to_cache_file_def str_replace_char_def)

lemma w_generated_fields:
  "registry w_generated = [(''demo.double'', demo_md\<lparr>implementation := Some ''return n * 2''\<rparr>)]"
  "needs_generation_flags w_generated ''demo.double'' = Some True"
  "cache w_generated = [(''demo.double'', demo_record)]"
  "loaded_modules w_generated = {''demo''}"
  "length (oracle_calls w_generated) = 1"
  "implementations w_generated ''demo.double'' = Some ''return n * 2''"
  by (simp_all add: w_generated_def process_module_def load_def functions_of_def get_all_def
        process_function_def needs_generation_def cached_hash_of_def cache_get_def
        truthy_record_def truthy_str_def generate_and_test_def attempts_list
        stub_env_fields stub_run_test_good w_demo_fields w_demo_cache_fields demo_md_fields
        demo_func_fields demo_json demo_record_def get_function_hash_def hash_input_def demo_sig_def
        get_implementation_def store_implementation_def store_def save_def set_flag_def Let_def)


lemma w_generated_second_pass:
  "length (oracle_calls (snd (process_module stub_env ''demo'' w_generated))) = 2"
  by (simp add: process_module_def load_def functions_of_def get_all_def
        process_function_def needs_generation_def cached_hash_of_def cache_get_def
        truthy_record_def truthy_str_def generate_and_test_def attempts_list
        stub_env_fields stub_run_test_good w_generated_fields demo_md_fields
        demo_func_fields demo_record_def get_full_name_def demo_md_def
        get_implementation_def store_implementation_def store_def save_def set_flag_def Let_def)

text \<open>
  Claim C1 at a second pass in one process. The first pass over \<open>demo\<close> generated
  \<open>double\<close> with one request and cached it. \<open>double\<close> is then registered with the same
  specification, and its cache record carries the hash of that specification, so the
  claim asks for no request in the second pass. Yet the decision memoized in the first
  pass is still true, \<open>needs_generation\<close> returns it without comparing the hashes, and
  the second pass makes a second request to the code generator.
\<close>

theorem second_pass_regenerates:
  "cache_get ''demo.double'' w_generated = Some demo_record
   \<and> map_of demo_record ''hash''
       = Some (get_function_hash (md5_hexdigest stub_env) (docstring demo_md) (signature demo_md))
   \<and> get ''demo.double'' w_generated = Some (demo_md\<lparr>implementation := Some ''return n * 2''\<rparr>)
   \<and> needs_generation_flags w_generated ''demo.double'' = Some True
   \<and> fst (needs_generation (md5_hexdigest stub_env) ''demo.double''
            (cached_hash_of ''demo.double'' w_generated) w_generated) = True
   \<and> length (oracle_calls w_generated) = 1
   \<and> length (oracle_calls (snd (process_module stub_env ''demo'' w_generated))) = 2"
  by (simp add: w_generated_fields w_generated_second_pass cache_get_def get_def demo_record_def
        stub_env_fields demo_md_fields demo_hash needs_generation_def)

lemma w_declared_cached_fields:
  "registry w_declared_cached = [(''demo.double'', demo_md)]"
  "cache w_declared_cached = []" "loaded_modules w_declared_cached = {}"
  "files w_declared_cached = [''demo.json'' \<mapsto> Json [(''demo.double'', demo_record)]]"
  "needs_generation_flags w_declared_cached = Map.empty"
  "oracle_calls w_declared_cached = []"
  by (simp_all add: w_declared_cached_def w_partition_def decorator_def register_def
        demo_decl_def demo_md_def init_world_def demo_func_def)

lemma w_declared_cached_load:
  "registry (load ''demo'' w_declared_cached)
     = [(''demo.double'', demo_md\<lparr>implementation := Some ''return n * 2''\<rparr>)]"
  "cache (load ''demo'' w_declared_cached) = [(''demo.double'', demo_record)]"
  "needs_generation_flags (load ''demo'' w_declared_cached) = Map.empty"
  by (simp_all add: load_def demo_json w_declared_cached_fields merge_cache_def load_entry_def
        store_implementation_def demo_record_def Let_def)

lemma w_reloaded_fields:
  "registry w_reloaded = [(''demo.double'', demo_md)]"
  "needs_generation_flags w_reloaded ''demo.double'' = None"
  "cache w_reloaded = [(''demo.double'', demo_record)]"
  "''demo'' \<in> loaded_modules w_reloaded"
  "oracle_calls w_reloaded = oracle_calls w_generated"
  by (simp_all add: w_reloaded_def decorator_def register_def clear_module_def w_generated_fields
        demo_decl_def demo_md_def demo_func_def)

text \<open>
  The short circuit at work: a fresh process that finds the partition of \<open>demo\<close> on
  disk, and the reload of \<open>demo\<close> after the first pass, make no request.
\<close>

theorem cache_hit_short_circuit_witness:
  "functions_of ''demo'' (load ''demo'' w_declared_cached)
     = [demo_md\<lparr>implementation := Some ''return n * 2''\<rparr>]
   \<and> cache_hit stub_env (load ''demo'' w_declared_cached)
        (demo_md\<lparr>implementation := Some ''return n * 2''\<rparr>)
   \<and> fst (process_module stub_env ''demo'' w_declared_cached)
   \<and> oracle_calls (snd (process_module stub_env ''demo'' w_declared_cached)) = []
   \<and> oracle_calls (snd (process_module stub_env ''demo''
        (snd (process_module stub_env ''demo'' w_declared_cached)))) = []
   \<and> get_implementation ''demo.double''
        (snd (process_function stub_env (demo_md\<lparr>implementation := Some ''return n * 2''\<rparr>)
                (True, load ''demo'' w_declared_cached))) = Some ''return n * 2''
   \<and> functions_of ''demo'' (load ''demo'' w_reloaded) = [demo_md]
   \<and> cache_hit stub_env (load ''demo'' w_reloaded) demo_md
   \<and> length (oracle_calls w_generated) = 1
   \<and> length (oracle_calls (snd (process_module stub_env ''demo'' w_reloaded))) = 1"
proof -
  have same: "load ''demo'' w_reloaded = w_reloaded"
    by (rule load_loaded) (rule w_reloaded_fields)
  have fs2: "functions_of ''demo'' (load ''demo'' w_reloaded) = [demo_md]"
    by (simp add: same functions_of_def get_all_def w_reloaded_fields demo_md_def)
  have hit2: "cache_hit stub_env (load ''demo'' w_reloaded) demo_md"
    by (simp add: same cache_hit_def cache_get_def get_def w_reloaded_fields demo_md_fields
          demo_record_def stub_env_fields demo_hash)
  from fs2 hit2 have hits2: "\<forall>md \<in> set (functions_of ''demo'' (load ''demo'' w_reloaded)).
      cache_hit stub_env (load ''demo'' w_reloaded) md"
    by simp
  from cache_hit_short_circuit [of stub_env "load ''demo'' w_reloaded" demo_md True "''demo''" w_reloaded]
    fs2 hit2 hits2
  have reload: "functions_of ''demo'' (load ''demo'' w_reloaded) = [demo_md]
   \<and> cache_hit stub_env (load ''demo'' w_reloaded) demo_md
   \<and> length (oracle_calls w_generated) = 1
   \<and> length (oracle_calls (snd (process_module stub_env ''demo'' w_reloaded))) = 1"
    by (simp add: w_reloaded_fields w_generated_fields)
  let ?m = "demo_md\<lparr>implementation := Some ''return n * 2''\<rparr>"
  let ?w1 = "load ''demo'' w_declared_cached"
  have fs: "functions_of ''demo'' ?w1 = [?m]"
    by (simp add: functions_of_def get_all_def w_declared_cached_load demo_md_def)
  have hit: "cache_hit stub_env ?w1 ?m"
    by (simp add: cache_hit_def cache_get_def get_def w_declared_cached_load get_full_name_def
          demo_md_def demo_record_def stub_env_fields demo_hash)
  have ci: "cached_implementation_of (get_full_name ?m) ?w1 = ''return n * 2''"
    by (simp add: cached_implementation_of_def cache_get_def w_declared_cached_load
          get_full_name_def demo_md_def demo_record_def)
  have fn: "get_full_name ?m = ''demo.double''"
    by (simp add: get_full_name_def demo_md_def)
  from fs hit have hits: "\<forall>md \<in> set (functions_of ''demo'' ?w1). cache_hit stub_env ?w1 md"
    by simp
  from cache_hit_short_circuit [of stub_env ?w1 ?m True "''demo''" w_declared_cached]
    fs hit hits ci fn reload
  show ?thesis
    by (simp add: w_declared_cached_fields)
qed


section \<open>Frozen functions\<close>

lemma needs_generation_flags_decorator [simp]:
  "needs_generation_flags (decorator d w) = needs_generation_flags w"
  by (simp add: decorator_def register_def)

lemma needs_generation_memo_False:
  "needs_generation_flags w k = Some False \<Longrightarrow> needs_generation md5_hex k h w = (False, w)"
  by (simp add: needs_generation_def)

lemma frozen_decision:
  assumes "get full_name w = Some r" and "frozen r"
    and "needs_generation_flags w full_name \<noteq> Some True"
  shows "needs_generation md5_hex full_name cached_hash w = (False, set_flag full_name False w)"
proof (cases "needs_generation_flags w full_name")
  case None
  with assms show ?thesis by (simp add: needs_generation_def get_def)
next
  case (Some b)
  with assms have "b = False" by simp
  with Some show ?thesis by (simp add: needs_generation_def set_flag_same)
qed

text \<open>
  Where freezing works. For a function that is registered as frozen and for which no
  decision to generate is memoized, \<open>needs_generation\<close> answers false whatever the cached
  hash is, and it memoizes that answer, so that every later call answers false too, also
  after the function has been declared again with another specification. Processing the
  function makes no request to the code generator; when a cache record exists, its
  implementation is stored in the registry and the success flag stays as it is.
\<close>

theorem frozen_never_regenerates:
  assumes reg: "get full_name w = Some r" and frz: "frozen r"
    and memo: "needs_generation_flags w full_name \<noteq> Some True"
  shows "fst (needs_generation md5_hex full_name cached_hash w) = False
     \<and> needs_generation_flags (snd (needs_generation md5_hex full_name cached_hash w)) full_name
         = Some False
     \<and> (\<forall>h' d. fst (needs_generation md5_hex full_name h'
                       (decorator d (snd (needs_generation md5_hex full_name cached_hash w))))
                 = False)
     \<and> (\<forall>md s. get_full_name md = full_name \<longrightarrow>
           oracle_calls (snd (process_function ev md (s, w))) = oracle_calls w
           \<and> needs_generation_flags (snd (process_function ev md (s, w))) full_name = Some False
           \<and> (truthy_record (cache_get full_name w) \<longrightarrow>
                fst (process_function ev md (s, w)) = s
                \<and> get_implementation full_name (snd (process_function ev md (s, w)))
                    = Some (cached_implementation_of full_name w)))"
proof -
  note dec = frozen_decision [OF reg frz memo]
  have a: "fst (needs_generation md5_hex full_name cached_hash w) = False"
    by (simp add: dec)
  have b: "needs_generation_flags (snd (needs_generation md5_hex full_name cached_hash w)) full_name
         = Some False"
    by (simp add: dec set_flag_def)
  have c: "\<forall>h' d. fst (needs_generation md5_hex full_name h'
                       (decorator d (snd (needs_generation md5_hex full_name cached_hash w))))
                 = False"
    by (simp add: dec needs_generation_memo_False set_flag_def)
  have d: "\<forall>md s. get_full_name md = full_name \<longrightarrow>
           oracle_calls (snd (process_function ev md (s, w))) = oracle_calls w
           \<and> needs_generation_flags (snd (process_function ev md (s, w))) full_name = Some False
           \<and> (truthy_record (cache_get full_name w) \<longrightarrow>
                fst (process_function ev md (s, w)) = s
                \<and> get_implementation full_name (snd (process_function ev md (s, w)))
                    = Some (cached_implementation_of full_name w))"
    by (simp add: process_function_def Let_def frozen_decision [OF reg frz memo]
          set_flag_def store_implementation_def get_implementation_def)
  from a b c d show ?thesis by (intro conjI)
qed

lemma w_frozen_cached_fields:
  "registry w_frozen_cached
     = [(''demo.double'', frozen_md\<lparr>implementation := Some ''return n * 2''\<rparr>)]"
  "cache w_frozen_cached = [(''demo.double'', demo_record)]"
  "needs_generation_flags w_frozen_cached = Map.empty"
  "oracle_calls w_frozen_cached = []"
  by (simp_all add: w_frozen_cached_def load_def demo_json w_partition_def decorator_def
        register_def demo_decl_def demo_md_def frozen_md_def init_world_def demo_func_def
        merge_cache_def load_entry_def store_implementation_def demo_record_def Let_def)

text \<open>
  Freezing at work: \<open>double\<close> declared frozen in a fresh process, with a specification
  text that differs from the one its cached record was made for.
\<close>

theorem frozen_never_regenerates_witness:
  "get ''demo.double'' w_frozen_cached
     = Some (frozen_md\<lparr>implementation := Some ''return n * 2''\<rparr>)
   \<and> frozen (frozen_md\<lparr>implementation := Some ''return n * 2''\<rparr>)
   \<and> needs_generation_flags w_frozen_cached ''demo.double'' = None
   \<and> cached_hash_of ''demo.double'' w_frozen_cached = Some ''double the input|(fn, n)''
   \<and> get_hash (\<lambda>s. s) (frozen_md\<lparr>implementation := Some ''return n * 2''\<rparr>)
       = ''triple the input|(fn, n)''
   \<and> fst (needs_generation (\<lambda>s. s) ''demo.double'' (cached_hash_of ''demo.double'' w_frozen_cached)
            w_frozen_cached) = False
   \<and> oracle_calls (snd (process_function stub_env frozen_md (True, w_frozen_cached))) = []
   \<and> get_implementation ''demo.double''
        (snd (process_function stub_env frozen_md (True, w_frozen_cached))) = Some ''return n * 2''"
proof -
  let ?r = "frozen_md\<lparr>implementation := Some ''return n * 2''\<rparr>"
  have reg: "get ''demo.double'' w_frozen_cached = Some ?r"
    by (simp add: get_def w_frozen_cached_fields)
  have frz: "frozen ?r" by (simp add: frozen_md_def)
  have memo: "needs_generation_flags w_frozen_cached ''demo.double'' \<noteq> Some True"
    by (simp add: w_frozen_cached_fields)
  have fn: "get_full_name frozen_md = ''demo.double''"
    by (simp add: frozen_md_def demo_md_def get_full_name_def)
  have rest: "cached_hash_of ''demo.double'' w_frozen_cached = Some ''double the input|(fn, n)''"
    "get_hash (\<lambda>s. s) ?r = ''triple the input|(fn, n)''"
    "truthy_record (cache_get ''demo.double'' w_frozen_cached)"
    "cached_implementation_of ''demo.double'' w_frozen_cached = ''return n * 2''"
    by (simp_all add: cached_hash_of_def cached_implementation_of_def cache_get_def truthy_record_def
          w_frozen_cached_fields demo_record_def get_hash_def hash_input_def frozen_md_def
          demo_md_def demo_sig_def)
  from frozen_never_regenerates [OF reg frz memo, of "\<lambda>s. s"
      "cached_hash_of ''demo.double'' w_frozen_cached" stub_env]
    reg frz fn rest
  show ?thesis
    by (simp add: w_frozen_cached_fields)
qed

lemma w_refrozen_fields:
  "registry w_refrozen = [(''demo.double'', frozen_md)]"
  "needs_generation_flags w_refrozen ''demo.double'' = Some True"
  "cache w_refrozen = [(''demo.double'', demo_record)]"
  "loaded_modules w_refrozen = {''demo''}"
  "length (oracle_calls w_refrozen) = 1"
  "implementations w_refrozen ''demo.double'' = Some ''return n * 2''"
  by (simp_all add: w_refrozen_def decorator_def register_def w_generated_fields demo_decl_def
        frozen_md_def demo_md_def demo_func_def)

text \<open>
  Claim C4 at a function frozen after it was generated. \<open>double\<close> was generated in a
  first pass, which memoized the decision to generate it, and is then declared again as
  frozen, with another specification text, without the namespace being cleared. It is
  registered as frozen and has a stored implementation, so the claim asks for
  \<open>needs_generation\<close> to return false and for no request. Yet \<open>needs_generation\<close>
  returns the memoized decision, true, before it looks at the frozen flag, and the next
  pass makes a second request to the code generator for it.
\<close>

theorem refrozen_regenerates:
  "get ''demo.double'' w_refrozen = Some frozen_md
   \<and> frozen frozen_md
   \<and> get_implementation ''demo.double'' w_refrozen = Some ''return n * 2''
   \<and> fst (needs_generation (md5_hexdigest stub_env) ''demo.double''
            (cached_hash_of ''demo.double'' w_refrozen) w_refrozen) = True
   \<and> length (oracle_calls w_refrozen) = 1
   \<and> length (oracle_calls (snd (process_module stub_env ''demo'' w_refrozen))) = 2"
  by (simp add: process_module_def load_def functions_of_def get_all_def get_def
        process_function_def needs_generation_def cached_hash_of_def cache_get_def
        truthy_record_def truthy_str_def generate_and_test_def attempts_list
        stub_env_fields stub_run_test_good w_refrozen_fields demo_md_fields
        demo_func_fields demo_record_def get_full_name_def demo_md_def frozen_md_def
        get_implementation_def store_implementation_def store_def save_def set_flag_def Let_def)


end
